theory Spec2Isabelle
  imports Complex_Main
begin

section \<open>Python values\<close>

text \<open>
  A Python \<open>str\<close> is modelled as a \<open>string\<close>; a character outside ASCII is written as
  the bytes of its UTF-8 encoding. No property below depends on the length of a string.
  A chat message \<open>{"role": r, "content": c}\<close> is a record of its two entries.
\<close>

record message =
  role :: string
  content :: string

text \<open>The two Chinese characters of the error texts, \<open>chu cuo\<close> ("went wrong").\<close>

definition chu_cuo :: string where
  "chu_cuo = [CHR 0xE5, CHR 0x87, CHR 0xBA, CHR 0xE9, CHR 0x94, CHR 0x99]"

text \<open>\<open>lao shi\<close> ("teacher"), of the labels of the two opening statements.\<close>

definition lao_shi :: string where
  "lao_shi = [CHR 0xE8, CHR 0x80, CHR 0x81, CHR 0xE5, CHR 0xB8, CHR 0x88]"

text \<open>The closing line of the transcript: \<open>**dui hua jie shu!** \<close> and a check mark.\<close>

definition closing_line :: string where
  "closing_line =
     ''**'' @ [CHR 0xE5, CHR 0xAF, CHR 0xB9, CHR 0xE8, CHR 0xAF, CHR 0x9D,
               CHR 0xE7, CHR 0xBB, CHR 0x93, CHR 0xE6, CHR 0x9D, CHR 0x9F]
          @ ''!** '' @ [CHR 0xE2, CHR 0x9C, CHR 0x85]"

text \<open>\<open>sep.join(xs)\<close> of Python.\<close>

fun join :: "string \<Rightarrow> string list \<Rightarrow> string" where
  "join sep [] = []"
| "join sep [x] = x"
| "join sep (x # y # ys) = x @ sep @ join sep (y # ys)"

section \<open>The debate: the two callers\<close>

text \<open>
  The hosted chat services are outside the program. A service is a function from the
  request the caller sends (credential, model name, message list) and the state of the
  outside world to the outcome of the caller's \<open>try\<close> body and the next state of the
  world: \<open>Inr c\<close> when the body reaches its \<open>return\<close> with the completion text \<open>c\<close>,
  \<open>Inl e\<close> when anything in the body raises an exception whose text is \<open>e\<close>. The
  world state lets one service answer the same request differently at different times.
\<close>

type_synonym 'w service = "string \<Rightarrow> string \<Rightarrow> message list \<Rightarrow> 'w \<Rightarrow> (string + string) \<times> 'w"

definition call_deepseek ::
  "'w service \<Rightarrow> string \<Rightarrow> string \<Rightarrow> string \<Rightarrow> message list \<Rightarrow> 'w \<Rightarrow> string \<times> 'w" where
  "call_deepseek post api_key model system messages w =
     (case post api_key model messages w of
        (Inr c, w') \<Rightarrow> (c, w')
      | (Inl e, w') \<Rightarrow> (''[DeepSeek '' @ chu_cuo @ '': '' @ e @ '']'', w'))"

definition call_gpt ::
  "'w service \<Rightarrow> string \<Rightarrow> string \<Rightarrow> string \<Rightarrow> message list \<Rightarrow> 'w \<Rightarrow> string \<times> 'w" where
  "call_gpt create api_key model system messages w =
     (case create api_key model messages w of
        (Inr c, w') \<Rightarrow> (c, w')
      | (Inl e, w') \<Rightarrow> (''[GPT '' @ chu_cuo @ '': '' @ e @ '']'', w'))"

section \<open>The debate: the turn loop\<close>

text \<open>
  The arguments of \<open>start_debate\<close> that the loop only reads, with the two services.
\<close>

record 'w debate_args =
  openai :: "'w service"
  deepseek :: "'w service"
  gpt_api_key :: string
  deepseek_api_key :: string
  gpt_model :: string
  deepseek_model :: string
  gpt_system :: string
  deepseek_system :: string

text \<open>
  The variables the loop updates. \<open>requests\<close> is not a variable of the program: it
  records, in order, which caller was invoked and with which message list, the one
  effect of the loop that its variables do not keep.
\<close>

datatype callee = GPT | DeepSeek

record 'w debate =
  gpt_messages :: "string list"
  deepseek_messages :: "string list"
  conversation_md :: "string list"
  requests :: "(callee \<times> message list) list"
  world :: 'w

text \<open>The two inner loops over \<open>zip(gpt_messages, deepseek_messages)\<close>.\<close>

definition gpt_history_of :: "string \<Rightarrow> string list \<Rightarrow> string list \<Rightarrow> message list" where
  "gpt_history_of sys gm dm =
     foldl (\<lambda>h (gpt, deepseek).
              h @ [\<lparr>role = ''assistant'', content = gpt\<rparr>,
                   \<lparr>role = ''user'', content = deepseek\<rparr>])
       [\<lparr>role = ''system'', content = sys\<rparr>] (zip gm dm)"

definition deepseek_history_of ::
  "string \<Rightarrow> string list \<Rightarrow> string list \<Rightarrow> string \<Rightarrow> message list" where
  "deepseek_history_of sys gm dm gpt_next =
     foldl (\<lambda>h (gpt, deepseek).
              h @ [\<lparr>role = ''user'', content = gpt\<rparr>,
                   \<lparr>role = ''assistant'', content = deepseek\<rparr>])
       [\<lparr>role = ''system'', content = sys\<rparr>] (zip gm dm)
     @ [\<lparr>role = ''user'', content = gpt_next\<rparr>]"

text \<open>
  The first half of the loop body: the call to GPT and the two appends after it. The
  reply \<open>gpt_next\<close> is returned with the state, since the second half reads it.
\<close>

definition gpt_turn :: "'w debate_args \<Rightarrow> 'w debate \<Rightarrow> string \<times> 'w debate" where
  "gpt_turn c s =
     (let gpt_history = gpt_history_of (gpt_system c) (gpt_messages s) (deepseek_messages s);
          (gpt_next, w') =
             call_gpt (openai c) (gpt_api_key c) (gpt_model c) (gpt_system c) gpt_history (world s)
      in (gpt_next,
          s\<lparr>gpt_messages := gpt_messages s @ [gpt_next],
            conversation_md := conversation_md s @ [''**GPT:** '' @ gpt_next],
            requests := requests s @ [(GPT, gpt_history)],
            world := w'\<rparr>))"

text \<open>The second half: the call to DeepSeek and the two appends after it.\<close>

definition deepseek_turn :: "'w debate_args \<Rightarrow> string \<Rightarrow> 'w debate \<Rightarrow> 'w debate" where
  "deepseek_turn c gpt_next s =
     (let deepseek_history =
             deepseek_history_of (deepseek_system c) (gpt_messages s) (deepseek_messages s) gpt_next;
          (deepseek_next, w') =
             call_deepseek (deepseek c) (deepseek_api_key c) (deepseek_model c) (deepseek_system c)
               deepseek_history (world s)
      in s\<lparr>deepseek_messages := deepseek_messages s @ [deepseek_next],
            conversation_md := conversation_md s @ [''**DeepSeek:** '' @ deepseek_next],
            requests := requests s @ [(DeepSeek, deepseek_history)],
            world := w'\<rparr>)"

definition debate_round :: "'w debate_args \<Rightarrow> 'w debate \<Rightarrow> 'w debate" where
  "debate_round c s = (let (gpt_next, s1) = gpt_turn c s in deepseek_turn c gpt_next s1)"

text \<open>\<open>for i in range(num_rounds)\<close>: the body, \<open>n\<close> times.\<close>

fun run_rounds :: "'w debate_args \<Rightarrow> nat \<Rightarrow> 'w debate \<Rightarrow> 'w debate" where
  "run_rounds c 0 s = s"
| "run_rounds c (Suc n) s = run_rounds c n (debate_round c s)"

text \<open>The state when the loop is entered: lines 49 to 55 of the source.\<close>

definition debate_start :: "string \<Rightarrow> string \<Rightarrow> 'w \<Rightarrow> 'w debate" where
  "debate_start gpt_first_statement deepseek_first_statement w =
     \<lparr>gpt_messages = [gpt_first_statement],
      deepseek_messages = [deepseek_first_statement],
      conversation_md = [''**G'' @ lao_shi @ '':** '' @ gpt_first_statement,
                         ''**Deep'' @ lao_shi @ '':** '' @ deepseek_first_statement],
      requests = [],
      world = w\<rparr>"

text \<open>
  The state when the loop is left. \<open>range(num_rounds)\<close> is empty for a round count
  below one, hence \<open>nat num_rounds\<close> rounds.
\<close>

definition debate_end :: "'w debate_args \<Rightarrow> string \<Rightarrow> string \<Rightarrow> int \<Rightarrow> 'w \<Rightarrow> 'w debate" where
  "debate_end c gpt_first_statement deepseek_first_statement num_rounds w =
     run_rounds c (nat num_rounds) (debate_start gpt_first_statement deepseek_first_statement w)"

text \<open>The list that is joined into the transcript, and the transcript returned.\<close>

definition transcript_entries :: "'w debate_args \<Rightarrow> string \<Rightarrow> string \<Rightarrow> int \<Rightarrow> 'w \<Rightarrow> string list" where
  "transcript_entries c gpt_first_statement deepseek_first_statement num_rounds w =
     conversation_md (debate_end c gpt_first_statement deepseek_first_statement num_rounds w)
       @ [closing_line]"

definition start_debate ::
  "'w service \<Rightarrow> 'w service \<Rightarrow> string \<Rightarrow> string \<Rightarrow> string \<Rightarrow> string \<Rightarrow> string \<Rightarrow> string
     \<Rightarrow> string \<Rightarrow> string \<Rightarrow> int \<Rightarrow> 'w \<Rightarrow> string" where
  "start_debate create post gpt_key deepseek_key gpt_mod deepseek_mod gpt_sys deepseek_sys
       gpt_first_statement deepseek_first_statement num_rounds w =
     join ''\<newline>\<newline>''
       (transcript_entries
          \<lparr>openai = create, deepseek = post, gpt_api_key = gpt_key,
           deepseek_api_key = deepseek_key, gpt_model = gpt_mod, deepseek_model = deepseek_mod,
           gpt_system = gpt_sys, deepseek_system = deepseek_sys\<rparr>
          gpt_first_statement deepseek_first_statement num_rounds w)"

text \<open>
  The program points of the loop at which a message history has just changed: the state
  after each of the two appends of every round, in order of execution.
\<close>

fun trace_rounds :: "'w debate_args \<Rightarrow> nat \<Rightarrow> 'w debate \<Rightarrow> 'w debate list" where
  "trace_rounds c 0 s = []"
| "trace_rounds c (Suc n) s =
     (let (gpt_next, s1) = gpt_turn c s;
          s2 = deepseek_turn c gpt_next s1
      in s1 # s2 # trace_rounds c n s2)"

definition debate_trace :: "'w debate_args \<Rightarrow> string \<Rightarrow> string \<Rightarrow> int \<Rightarrow> 'w \<Rightarrow> 'w debate list" where
  "debate_trace c gpt_first_statement deepseek_first_statement num_rounds w =
     (let s0 = debate_start gpt_first_statement deepseek_first_statement w
      in s0 # trace_rounds c (nat num_rounds) s0)"

subsection \<open>Notions used to state the properties of the debate\<close>

text \<open>
  The messages of two lists paired off, the first list's under role \<open>r1\<close> and the second
  list's under role \<open>r2\<close>, alternating.
\<close>

definition tagged_pairs :: "string \<Rightarrow> string \<Rightarrow> string list \<Rightarrow> string list \<Rightarrow> message list" where
  "tagged_pairs r1 r2 xs ys =
     concat (map (\<lambda>(x, y). [\<lparr>role = r1, content = x\<rparr>, \<lparr>role = r2, content = y\<rparr>]) (zip xs ys))"

text \<open>The transcript entries of a sequence of rounds, from the replies of the two models.\<close>

definition labelled_pairs :: "string list \<Rightarrow> string list \<Rightarrow> string list" where
  "labelled_pairs gs ds =
     concat (map (\<lambda>(g, d). [''**GPT:** '' @ g, ''**DeepSeek:** '' @ d]) (zip gs ds))"



text \<open>The two histories differ in length by at most one, and GPT's is not the shorter.\<close>

definition lockstep :: "'w debate \<Rightarrow> bool" where
  "lockstep s \<longleftrightarrow>
     length (deepseek_messages s) \<le> length (gpt_messages s)
     \<and> length (gpt_messages s) \<le> length (deepseek_messages s) + 1"

subsection \<open>A scripted service, for concrete runs\<close>

text \<open>
  A service that plays back a script: the state of the world is the list of the outcomes
  still to come, and each request consumes the first of them.
\<close>

definition scripted :: "(string + string) list service" where
  "scripted api_key model messages w =
     (case w of [] \<Rightarrow> (Inl ''script exhausted'', []) | r # rs \<Rightarrow> (r, rs))"

definition demo_args :: "(string + string) list debate_args" where
  "demo_args =
     \<lparr>openai = scripted, deepseek = scripted, gpt_api_key = ''k1'', deepseek_api_key = ''k2'',
      gpt_model = ''gpt-4o-mini'', deepseek_model = ''deepseek-chat'',
      gpt_system = ''SG'', deepseek_system = ''SD''\<rparr>"

section \<open>The voice chat assistant: configuration and state\<close>

definition SAMPLE_RATE :: nat where
  "SAMPLE_RATE = 16000"

text \<open>
  The entries of \<open>LANGUAGES\<close>. The key of the third entry is \<open>zhong wen\<close> ("Chinese").
\<close>

record language =
  code :: string
  system_prompt :: string

definition zhong_wen :: string where
  "zhong_wen = [CHR 0xE4, CHR 0xB8, CHR 0xAD, CHR 0xE6, CHR 0x96, CHR 0x87]"

definition zhong_wen_prompt :: string where
  "zhong_wen_prompt =
     [CHR 0xE4, CHR 0xBD, CHR 0xA0, CHR 0xE6, CHR 0x98, CHR 0xAF, CHR 0xE4, CHR 0xB8,
     CHR 0x80, CHR 0xE4, CHR 0xBD, CHR 0x8D, CHR 0xE5, CHR 0x8F, CHR 0x8B, CHR 0xE5,
     CHR 0xA5, CHR 0xBD, CHR 0xE7, CHR 0x9A, CHR 0x84, CHR 0xE4, CHR 0xB8, CHR 0xAD,
     CHR 0xE6, CHR 0x96, CHR 0x87, CHR 0xE8, CHR 0x80, CHR 0x81, CHR 0xE5, CHR 0xB8,
     CHR 0x88, CHR 0xE3, CHR 0x80, CHR 0x82, CHR 0xE8, CHR 0xAF, CHR 0xB7, CHR 0xE7,
     CHR 0x94, CHR 0xA8, CHR 0x31, CHR 0x30, CHR 0x30, CHR 0xE5, CHR 0xAD, CHR 0x97,
     CHR 0xE4, CHR 0xBB, CHR 0xA5, CHR 0xE5, CHR 0x86, CHR 0x85, CHR 0xE7, CHR 0x9A,
     CHR 0x84, CHR 0xE4, CHR 0xB8, CHR 0xAD, CHR 0xE6, CHR 0x96, CHR 0x87, CHR 0xE7,
     CHR 0xAE, CHR 0x80, CHR 0xE6, CHR 0xB4, CHR 0x81, CHR 0xE5, CHR 0x9B, CHR 0x9E,
     CHR 0xE7, CHR 0xAD, CHR 0x94, CHR 0xE3, CHR 0x80, CHR 0x82]"

definition LANGUAGES :: "string \<rightharpoonup> language" where
  "LANGUAGES = map_of
     [(''English'',
       \<lparr>code = ''en'',
        system_prompt =
          ''You are a friendly English tutor. Respond concisely in under 100 words in English.''\<rparr>),
      (''Deutsch'',
       \<lparr>code = ''de'',
        system_prompt =
          ''Du bist ein freundlicher Deutschlehrer. Antworte kurz und pr'' @ [CHR 0xC3, CHR 0xA4]
            @ ''gnant in maximal 100 W'' @ [CHR 0xC3, CHR 0xB6] @ ''rtern auf Deutsch.''\<rparr>),
      (zhong_wen, \<lparr>code = ''zh'', system_prompt = zhong_wen_prompt\<rparr>)]"

text \<open>The speech detection parameters.\<close>

definition SILENCE_THRESHOLD :: real where
  "SILENCE_THRESHOLD = 0.015"

definition MIN_SPEECH_DURATION :: real where
  "MIN_SPEECH_DURATION = 0.3"

definition MIN_SILENCE_DURATION :: real where
  "MIN_SILENCE_DURATION = 0.8"

definition PRE_SPEECH_BUFFER :: real where
  "PRE_SPEECH_BUFFER = 0.5"

text \<open>The exceptions of Python that the modelled methods can raise.\<close>

datatype py_error = AttributeError | KeyError | ValueError

text \<open>
  A block of samples of the one recorded channel, and a frame as the capture callback
  queues it: the block with its volume.
\<close>

type_synonym audio = "real list"

type_synonym frame = "audio \<times> real"

text \<open>
  The widgets of the window that the modelled methods read or write, by the value they
  hold. \<open>setup_ui\<close> creates them, and it runs exactly when \<open>root\<close> is given.
\<close>

record ui =
  model_var :: string
  language_var :: string
  status_var :: string

text \<open>
  The attributes of a \<open>VoiceChatbot\<close>. \<open>chat_context\<close> is the attribute \<open>context\<close>;
  \<open>model_name\<close> is the model of the attribute \<open>llm_client\<close>; \<open>gui\<close> is \<open>None\<close> when
  \<open>root\<close> is \<open>None\<close>, and otherwise the widgets; \<open>stdout\<close> keeps the lines printed.
\<close>

record chatbot =
  model_name :: string
  audio_queue :: "frame list"
  current_language :: string
  chat_context :: "message list"
  is_recording :: bool
  is_playing :: bool
  speech_detected :: bool
  ready_for_new_input :: bool
  gui :: "ui option"
  current_volume :: real
  processing_enabled :: bool
  stdout :: "string list"

text \<open>
  The object after \<open>__init__\<close>: with a window when \<open>with_root\<close>, without one otherwise.
  \<open>English\<close> is a key of \<open>LANGUAGES\<close>, so the lookup of its prompt succeeds.
\<close>

definition new_chatbot :: "bool \<Rightarrow> string \<Rightarrow> chatbot" where
  "new_chatbot with_root name =
     \<lparr>model_name = name,
      audio_queue = [],
      current_language = ''English'',
      chat_context =
        [\<lparr>role = ''system'',
          content = (case LANGUAGES ''English'' of Some l \<Rightarrow> system_prompt l | None \<Rightarrow> [])\<rparr>],
      is_recording = False,
      is_playing = False,
      speech_detected = False,
      ready_for_new_input = True,
      gui = (if with_root
             then Some \<lparr>model_var = ''Llama 3.1'', language_var = ''English'', status_var = ''Ready''\<rparr>
             else None),
      current_volume = 0,
      processing_enabled = True,
      stdout = []\<rparr>"

section \<open>The voice chat assistant: the capture callback\<close>

text \<open>
  \<open>_recording_callback(indata, frames, time, status)\<close>. \<open>status\<close> is \<open>None\<close> when no
  flag is set, and otherwise the text of the flags. \<open>np.max\<close> of an empty block raises
  \<open>ValueError\<close>. The result is the exception raised, if any, and the object as the call
  leaves it.
\<close>

definition recording_callback ::
  "chatbot \<Rightarrow> audio \<Rightarrow> nat \<Rightarrow> real \<Rightarrow> string option \<Rightarrow> py_error option \<times> chatbot" where
  "recording_callback self indata frames time status =
     (let s1 = (case status of
                  Some flags \<Rightarrow> self\<lparr>stdout := stdout self @ [''Recording error: '' @ flags]\<rparr>
                | None \<Rightarrow> self)
      in if indata = [] then (Some ValueError, s1)
         else
           let volume = Max (set (map abs indata));
               s2 = s1\<lparr>current_volume := volume * 2\<rparr>
           in if processing_enabled s2 \<and> \<not> is_playing s2
              then (None, s2\<lparr>audio_queue := audio_queue s2 @ [(indata, volume)]\<rparr>)
              else (None, s2))"

section \<open>The voice chat assistant: changing the language\<close>

text \<open>
  \<open>change_language(event)\<close>; the event is not read. Without a window the attribute
  \<open>language_var\<close> does not exist. The language is assigned before its prompt is looked
  up, so a selection that is no key of \<open>LANGUAGES\<close> leaves the new name behind.
\<close>

definition change_language :: "chatbot \<Rightarrow> py_error option \<times> chatbot" where
  "change_language self =
     (case gui self of
        None \<Rightarrow> (Some AttributeError, self)
      | Some u \<Rightarrow>
          let new_language = language_var u
          in if new_language \<noteq> current_language self
             then
               let s1 = self\<lparr>current_language := new_language\<rparr>
               in (case LANGUAGES (current_language s1) of
                     None \<Rightarrow> (Some KeyError, s1)
                   | Some l \<Rightarrow>
                       let s2 = s1\<lparr>chat_context := [\<lparr>role = ''system'', content = system_prompt l\<rparr>]\<rparr>;
                           s3 = s2\<lparr>gui := Some (u\<lparr>status_var := ''Language changed to '' @ new_language\<rparr>)\<rparr>
                       in (None, s3\<lparr>stdout := stdout s3 @ [''Language changed to '' @ new_language]\<rparr>))
             else (None, self))"

section \<open>The voice chat assistant: the segmenter\<close>





text \<open>
  The worker thread that runs \<open>process_audio\<close>: the object and the local variables of
  the method. \<open>handed_off\<close> is not a variable of the program: it keeps, in order, the
  argument of every call of \<open>process_accumulated_audio\<close>, whose transcription, reply and
  playback are outside the segmenter.
\<close>

record worker = chatbot +
  accumulated_audio :: "audio list"
  accumulated_time :: real
  speech_started :: bool
  speech_duration :: real
  silence_duration :: real
  handed_off :: "audio list list"

text \<open>The worker when \<open>process_audio\<close> enters its loop.\<close>

definition worker_start :: "chatbot \<Rightarrow> worker" where
  "worker_start self =
     chatbot.extend self
       (worker.fields [] 0 False 0 0 [])"

text \<open>\<open>len(audio_chunk) / SAMPLE_RATE\<close>, and the test \<open>volume > SILENCE_THRESHOLD\<close>.\<close>

definition chunk_duration :: "(real \<Rightarrow> real) \<Rightarrow> frame \<Rightarrow> real" where
  "chunk_duration rnd fr = rnd (real (length (fst fr)) / real SAMPLE_RATE)"

definition voiced :: "(real \<Rightarrow> real) \<Rightarrow> frame \<Rightarrow> bool" where
  "voiced rnd fr \<longleftrightarrow> snd fr > rnd SILENCE_THRESHOLD"

text \<open>
  One iteration of the loop that takes a frame from the queue: the body from the
  \<open>get\<close> on. An iteration that finds processing disabled or the queue empty changes
  nothing of the worker.
\<close>

definition process_chunk :: "(real \<Rightarrow> real) \<Rightarrow> worker \<Rightarrow> frame \<Rightarrow> worker" where
  "process_chunk rnd s0 fr =
     (let audio_chunk = fst fr;
          d = chunk_duration rnd fr;
          s1 = s0\<lparr>accumulated_time := rnd (accumulated_time s0 + d)\<rparr>;
          s2 = (if voiced rnd fr
                then
                  let s = (if \<not> speech_started s1 \<and> accumulated_time s1 \<ge> rnd PRE_SPEECH_BUFFER
                           then s1\<lparr>speech_started := True, speech_detected := True\<rparr>
                           else s1)
                  in if speech_started s
                     then s\<lparr>speech_duration := rnd (speech_duration s + d), silence_duration := 0\<rparr>
                     else s
                else if speech_started s1
                     then s1\<lparr>silence_duration := rnd (silence_duration s1 + d)\<rparr>
                     else s1);
          s3 = s2\<lparr>accumulated_audio := accumulated_audio s2 @ [audio_chunk]\<rparr>;
          should_process =
            (speech_started s3
             \<and> speech_duration s3 \<ge> rnd MIN_SPEECH_DURATION
             \<and> silence_duration s3 \<ge> rnd MIN_SILENCE_DURATION)
      in if should_process
         then s3\<lparr>handed_off := handed_off s3 @ [accumulated_audio s3],
                 accumulated_audio := [],
                 accumulated_time := 0,
                 speech_started := False,
                 speech_duration := 0,
                 silence_duration := 0,
                 speech_detected := False\<rparr>
         else s3)"

text \<open>The loop, over the frames it takes from the queue while recording is on.\<close>

definition process_audio :: "(real \<Rightarrow> real) \<Rightarrow> worker \<Rightarrow> frame list \<Rightarrow> worker" where
  "process_audio rnd s frames = foldl (process_chunk rnd) s frames"

subsection \<open>Notions used to state the properties of the segmenter\<close>

text \<open>
  The duration of a run of frames as the program adds it up, from the value \<open>t\<close> of the
  counter before the run.
\<close>

definition run_time :: "(real \<Rightarrow> real) \<Rightarrow> real \<Rightarrow> frame list \<Rightarrow> real" where
  "run_time rnd t frames = foldl (\<lambda>t fr. rnd (t + chunk_duration rnd fr)) t frames"



subsection \<open>States and frames for concrete runs\<close>

text \<open>A frame of \<open>n\<close> samples, all of the value \<open>v\<close>, with its volume.\<close>

definition tone :: "nat \<Rightarrow> real \<Rightarrow> frame" where
  "tone n v = (replicate n v, \<bar>v\<bar>)"

text \<open>An assistant with a window, one exchange into a conversation.\<close>

definition chatting :: chatbot where
  "chatting =
     (new_chatbot True ''llama3.1'')
       \<lparr>chat_context :=
          chat_context (new_chatbot True ''llama3.1'')
            @ [\<lparr>role = ''user'', content = ''Hello''\<rparr>,
               \<lparr>role = ''assistant'', content = ''Hi, how can I help?''\<rparr>]\<rparr>"

text \<open>The user picks an entry of the language selector.\<close>

definition select_language :: "string \<Rightarrow> chatbot \<Rightarrow> chatbot" where
  "select_language name self =
     self\<lparr>gui := map_option (\<lambda>u. u\<lparr>language_var := name\<rparr>) (gui self)\<rparr>"




lemma gpt_turn_fields:
  "gpt_messages (snd (gpt_turn c s)) = gpt_messages s @ [fst (gpt_turn c s)]"
  "deepseek_messages (snd (gpt_turn c s)) = deepseek_messages s"
  "conversation_md (snd (gpt_turn c s)) = conversation_md s @ [''**GPT:** '' @ fst (gpt_turn c s)]"
  "requests (snd (gpt_turn c s)) =
     requests s @ [(GPT, gpt_history_of (gpt_system c) (gpt_messages s) (deepseek_messages s))]"
  by (simp_all add: gpt_turn_def Let_def split: prod.splits)

lemma deepseek_turn_fields:
  "gpt_messages (deepseek_turn c g s) = gpt_messages s"
  "\<exists>d. deepseek_messages (deepseek_turn c g s) = deepseek_messages s @ [d]
     \<and> conversation_md (deepseek_turn c g s) = conversation_md s @ [''**DeepSeek:** '' @ d]"
  "requests (deepseek_turn c g s) =
     requests s @ [(DeepSeek, deepseek_history_of (deepseek_system c) (gpt_messages s) (deepseek_messages s) g)]"
  by (simp_all add: deepseek_turn_def Let_def split: prod.splits)

lemma run_rounds_Suc_end: "run_rounds c (Suc n) s = debate_round c (run_rounds c n s)"
  by (induction n arbitrary: s) simp_all





lemma tagged_pairs_snoc:
  "length xs = length ys \<Longrightarrow>
   tagged_pairs r1 r2 (xs @ [x]) (ys @ [y]) = tagged_pairs r1 r2 xs ys @ [\<lparr>role = r1, content = x\<rparr>, \<lparr>role = r2, content = y\<rparr>]"
  by (simp add: tagged_pairs_def)


lemma labelled_pairs_snoc:
  "length gs = length ds \<Longrightarrow>
   labelled_pairs (gs @ [g]) (ds @ [d]) = labelled_pairs gs ds @ [''**GPT:** '' @ g, ''**DeepSeek:** '' @ d]"
  by (simp add: labelled_pairs_def)

lemma debate_round_effect:
  "\<exists>g d. gpt_messages (debate_round c s) = gpt_messages s @ [g]
       \<and> deepseek_messages (debate_round c s) = deepseek_messages s @ [d]
       \<and> conversation_md (debate_round c s) = conversation_md s @ [''**GPT:** '' @ g, ''**DeepSeek:** '' @ d]
       \<and> requests (debate_round c s) =
           requests s @ [(GPT, gpt_history_of (gpt_system c) (gpt_messages s) (deepseek_messages s)),
                         (DeepSeek, deepseek_history_of (deepseek_system c) (gpt_messages s @ [g])
                                      (deepseek_messages s) g)]"
proof -
  obtain g s1 where t: "gpt_turn c s = (g, s1)" by (cases "gpt_turn c s")
  have s1: "gpt_messages s1 = gpt_messages s @ [g]" "deepseek_messages s1 = deepseek_messages s"
    "conversation_md s1 = conversation_md s @ [''**GPT:** '' @ g]"
    "requests s1 = requests s @ [(GPT, gpt_history_of (gpt_system c) (gpt_messages s) (deepseek_messages s))]"
    using gpt_turn_fields[of c s] t by simp_all
  obtain d where d: "deepseek_messages (deepseek_turn c g s1) = deepseek_messages s1 @ [d]"
    "conversation_md (deepseek_turn c g s1) = conversation_md s1 @ [''**DeepSeek:** '' @ d]"
    using deepseek_turn_fields(2)[of c g s1] by blast
  have r: "debate_round c s = deepseek_turn c g s1" by (simp add: debate_round_def t)
  show ?thesis
    by (rule exI[of _ g], rule exI[of _ d]) (simp add: r d s1 deepseek_turn_fields)
qed

lemma run_rounds_effect:
  shows "\<exists>G D. length G = n \<and> length D = n
       \<and> gpt_messages (run_rounds c n s) = gpt_messages s @ G
       \<and> deepseek_messages (run_rounds c n s) = deepseek_messages s @ D
       \<and> conversation_md (run_rounds c n s) = conversation_md s @ labelled_pairs G D"
proof (induction n)
  case 0
  show ?case by (simp add: labelled_pairs_def)
next
  case (Suc n)
  then obtain G D where IH: "length G = n" "length D = n"
    "gpt_messages (run_rounds c n s) = gpt_messages s @ G"
    "deepseek_messages (run_rounds c n s) = deepseek_messages s @ D"
    "conversation_md (run_rounds c n s) = conversation_md s @ labelled_pairs G D" by blast
  obtain g d where gd:
    "gpt_messages (debate_round c (run_rounds c n s)) = gpt_messages (run_rounds c n s) @ [g]"
    "deepseek_messages (debate_round c (run_rounds c n s)) = deepseek_messages (run_rounds c n s) @ [d]"
    "conversation_md (debate_round c (run_rounds c n s)) =
       conversation_md (run_rounds c n s) @ [''**GPT:** '' @ g, ''**DeepSeek:** '' @ d]"
    using debate_round_effect[of c "run_rounds c n s"] by blast
  show ?case
    apply (rule exI[of _ "G @ [g]"], rule exI[of _ "D @ [d]"])
    apply (simp only: run_rounds_Suc_end gd IH)
    apply (simp add: IH labelled_pairs_snoc)
    done
qed













lemma trace_rounds_last: "last (s # trace_rounds c n s) = run_rounds c n s"
  by (induction n arbitrary: s) (simp_all add: debate_round_def Let_def split: prod.splits)

lemma trace_rounds_length: "length (trace_rounds c n s) = 2 * n"
  by (induction n arbitrary: s) (simp_all add: Let_def split: prod.splits)

lemma trace_rounds_lockstep:
  "length (gpt_messages s) = length (deepseek_messages s) \<Longrightarrow>
   \<forall>t \<in> set (trace_rounds c n s). lockstep t"
proof (induction n arbitrary: s)
  case 0
  show ?case by simp
next
  case (Suc n)
  obtain g s1 where t: "gpt_turn c s = (g, s1)" by (cases "gpt_turn c s")
  have s1: "gpt_messages s1 = gpt_messages s @ [g]" "deepseek_messages s1 = deepseek_messages s"
    using gpt_turn_fields[of c s] t by simp_all
  obtain d where d: "deepseek_messages (deepseek_turn c g s1) = deepseek_messages s1 @ [d]"
    using deepseek_turn_fields(2)[of c g s1] by blast
  have g2: "gpt_messages (deepseek_turn c g s1) = gpt_messages s1"
    by (rule deepseek_turn_fields(1))
  have eq: "length (gpt_messages (deepseek_turn c g s1)) = length (deepseek_messages (deepseek_turn c g s1))"
    using Suc.prems by (simp add: g2 d s1)
  have "lockstep s1" using Suc.prems by (simp add: lockstep_def s1)
  moreover have "lockstep (deepseek_turn c g s1)" using eq by (simp add: lockstep_def)
  moreover have "\<forall>t \<in> set (trace_rounds c n (deepseek_turn c g s1)). lockstep t"
    using Suc.IH[OF eq] .
  ultimately show ?case by (simp add: t Let_def)
qed


lemma labelled_pairs_length:
  "length gs = length ds \<Longrightarrow> length (labelled_pairs gs ds) = 2 * length gs"
  by (induction gs ds rule: list_induct2) (simp_all add: labelled_pairs_def)

lemma run_rounds_conversation_length:
  "length (conversation_md (run_rounds c n s)) = length (conversation_md s) + 2 * n"
proof -
  obtain G D where "length G = n" "length D = n"
    "conversation_md (run_rounds c n s) = conversation_md s @ labelled_pairs G D"
    using run_rounds_effect[of n c s] by blast
  then show ?thesis by (simp add: labelled_pairs_length)
qed

section \<open>Properties of the debate\<close>

text \<open>
  Claim C9. The \<open>system\<close> parameter of \<open>call_gpt\<close> and of \<open>call_deepseek\<close> has no effect:
  with the service, the credential, the model name, the message list and the state of
  the outside world held equal, any two values of the parameter give the same text
  (and leave the outside world in the same state).
\<close>

theorem system_parameter_unused:
  "call_gpt create api_key model system1 messages w
     = call_gpt create api_key model system2 messages w
   \<and> call_deepseek post api_key model system1 messages w
     = call_deepseek post api_key model system2 messages w"
  by (simp add: call_gpt_def call_deepseek_def)

text \<open>
  Claim C1, as the code has it. For every round count \<open>N\<close> (below one, no round is
  run), the transcript returned by \<open>start_debate\<close> is the join, by blank lines, of exactly
  \<open>2 + 2N + 1\<close> entries: the two labelled opening statements, then for each round the
  labelled reply of GPT followed by the labelled reply of DeepSeek, in the order of the
  rounds, and last the closing line. The replies are those kept in the two message
  histories, \<open>N\<close> in each after the opening statement.
\<close>

theorem transcript_entries_shape:
  fixes create post :: "'w service"
    and gpt_key deepseek_key gpt_mod deepseek_mod gpt_sys deepseek_sys g0 d0 :: string
    and N :: int and w :: 'w
  defines "c \<equiv> \<lparr>openai = create, deepseek = post, gpt_api_key = gpt_key,
                 deepseek_api_key = deepseek_key, gpt_model = gpt_mod, deepseek_model = deepseek_mod,
                 gpt_system = gpt_sys, deepseek_system = deepseek_sys\<rparr>"
  defines "e \<equiv> debate_end c g0 d0 N w"
  shows "start_debate create post gpt_key deepseek_key gpt_mod deepseek_mod gpt_sys deepseek_sys
           g0 d0 N w
         = join ''\<newline>\<newline>'' (transcript_entries c g0 d0 N w)
       \<and> transcript_entries c g0 d0 N w
         = [''**G'' @ lao_shi @ '':** '' @ g0, ''**Deep'' @ lao_shi @ '':** '' @ d0]
           @ labelled_pairs (tl (gpt_messages e)) (tl (deepseek_messages e))
           @ [closing_line]
       \<and> length (tl (gpt_messages e)) = nat N
       \<and> length (tl (deepseek_messages e)) = nat N
       \<and> length (transcript_entries c g0 d0 N w) = 2 + 2 * nat N + 1"
proof -
  obtain G D where GD: "length G = nat N" "length D = nat N"
    "gpt_messages e = [g0] @ G" "deepseek_messages e = [d0] @ D"
    "conversation_md e
       = [''**G'' @ lao_shi @ '':** '' @ g0, ''**Deep'' @ lao_shi @ '':** '' @ d0] @ labelled_pairs G D"
    using run_rounds_effect[of "nat N" c "debate_start g0 d0 w"]
    unfolding e_def debate_end_def by (auto simp: debate_start_def)
  have "start_debate create post gpt_key deepseek_key gpt_mod deepseek_mod gpt_sys deepseek_sys
           g0 d0 N w = join ''\<newline>\<newline>'' (transcript_entries c g0 d0 N w)"
    by (simp add: start_debate_def c_def)
  moreover have "transcript_entries c g0 d0 N w
         = [''**G'' @ lao_shi @ '':** '' @ g0, ''**Deep'' @ lao_shi @ '':** '' @ d0]
           @ labelled_pairs (tl (gpt_messages e)) (tl (deepseek_messages e)) @ [closing_line]"
    using GD by (simp add: transcript_entries_def e_def[symmetric])
  moreover have "length (transcript_entries c g0 d0 N w) = 2 + 2 * nat N + 1"
    using GD by (simp add: transcript_entries_def e_def[symmetric] labelled_pairs_length)
  ultimately show ?thesis using GD by simp
qed

text \<open>
  The claim as stated, with \<open>2 + 2N\<close> entries, fails already for one round: two scripted
  services that answer \<open>x\<close> and \<open>y\<close> give five entries, the closing line being the
  fifth.
\<close>

theorem transcript_one_round_counterexample:
  "transcript_entries demo_args ''A'' ''B'' 1 [Inr ''x'', Inr ''y'']
     = [''**G'' @ lao_shi @ '':** A'', ''**Deep'' @ lao_shi @ '':** B'',
        ''**GPT:** x'', ''**DeepSeek:** y'', closing_line]
   \<and> length (transcript_entries demo_args ''A'' ''B'' 1 [Inr ''x'', Inr ''y'']) \<noteq> 2 + 2 * 1"
  by (simp add: transcript_entries_def debate_end_def debate_start_def debate_round_def
      gpt_turn_def deepseek_turn_def Let_def demo_args_def scripted_def call_gpt_def call_deepseek_def)



text \<open>
  Claim C5. A call that fails does not end the debate. A caller whose request raises an
  exception of text \<open>e\<close> returns the formatted error text. When the request to GPT
  raises, the first half of the round returns that text as GPT's reply and appends it
  to GPT's history and, labelled, to the transcript; when the request to DeepSeek
  raises, the second half does the same for DeepSeek. The second half of a round runs
  on whatever the first half returned, the next round on whatever the round left, and
  after \<open>n\<close> rounds each history has \<open>n\<close> more messages and the transcript \<open>2n\<close>
  more entries, whatever the outcomes of the calls.
\<close>

theorem failed_call_kept_as_reply:
  fixes c :: "'w debate_args"
  shows
    "(openai c (gpt_api_key c) (gpt_model c)
         (gpt_history_of (gpt_system c) (gpt_messages s) (deepseek_messages s)) (world s)
        = (Inl e, w1)
      \<longrightarrow> gpt_turn c s
          = (''[GPT '' @ chu_cuo @ '': '' @ e @ '']'',
             s\<lparr>gpt_messages := gpt_messages s @ [''[GPT '' @ chu_cuo @ '': '' @ e @ '']''],
               conversation_md :=
                 conversation_md s @ [''**GPT:** '' @ ''[GPT '' @ chu_cuo @ '': '' @ e @ '']''],
               requests :=
                 requests s
                   @ [(GPT, gpt_history_of (gpt_system c) (gpt_messages s) (deepseek_messages s))],
               world := w1\<rparr>))
   \<and> (deepseek c (deepseek_api_key c) (deepseek_model c)
         (deepseek_history_of (deepseek_system c) (gpt_messages s) (deepseek_messages s) g) (world s)
        = (Inl e, w1)
      \<longrightarrow> deepseek_turn c g s
          = s\<lparr>deepseek_messages := deepseek_messages s @ [''[DeepSeek '' @ chu_cuo @ '': '' @ e @ '']''],
              conversation_md :=
                conversation_md s
                  @ [''**DeepSeek:** '' @ ''[DeepSeek '' @ chu_cuo @ '': '' @ e @ '']''],
              requests :=
                requests s
                  @ [(DeepSeek, deepseek_history_of (deepseek_system c) (gpt_messages s)
                                  (deepseek_messages s) g)],
              world := w1\<rparr>)
   \<and> debate_round c s = deepseek_turn c (fst (gpt_turn c s)) (snd (gpt_turn c s))
   \<and> run_rounds c (Suc n) s = run_rounds c n (debate_round c s)
   \<and> length (gpt_messages (run_rounds c n s)) = length (gpt_messages s) + n
   \<and> length (deepseek_messages (run_rounds c n s)) = length (deepseek_messages s) + n
   \<and> length (conversation_md (run_rounds c n s)) = length (conversation_md s) + 2 * n
   \<and> (create api_key model messages w = (Inl e, w1)
      \<longrightarrow> call_gpt create api_key model system messages w
          = (''[GPT '' @ chu_cuo @ '': '' @ e @ '']'', w1))
   \<and> (create api_key model messages w = (Inl e, w1)
      \<longrightarrow> call_deepseek create api_key model system messages w
          = (''[DeepSeek '' @ chu_cuo @ '': '' @ e @ '']'', w1))"
proof -
  obtain G D where "length G = n" "length D = n"
    "gpt_messages (run_rounds c n s) = gpt_messages s @ G"
    "deepseek_messages (run_rounds c n s) = deepseek_messages s @ D"
    using run_rounds_effect[of n c s] by blast
  then show ?thesis
    by (simp add: gpt_turn_def deepseek_turn_def call_gpt_def call_deepseek_def debate_round_def
        run_rounds_conversation_length split: prod.splits)
qed

text \<open>One round in which both calls fail.\<close>

theorem failed_call_kept_as_reply_witness:
  "openai demo_args (gpt_api_key demo_args) (gpt_model demo_args)
       (gpt_history_of (gpt_system demo_args)
          (gpt_messages (debate_start ''A'' ''B'' [Inl ''timeout'', Inl ''HTTP 503'']))
          (deepseek_messages (debate_start ''A'' ''B'' [Inl ''timeout'', Inl ''HTTP 503''])))
       (world (debate_start ''A'' ''B'' [Inl ''timeout'', Inl ''HTTP 503'']))
     = (Inl ''timeout'', [Inl ''HTTP 503''])
   \<and> fst (gpt_turn demo_args (debate_start ''A'' ''B'' [Inl ''timeout'', Inl ''HTTP 503'']))
     = ''[GPT '' @ chu_cuo @ '': timeout]''
   \<and> gpt_messages (debate_end demo_args ''A'' ''B'' 1 [Inl ''timeout'', Inl ''HTTP 503''])
     = [''A'', ''[GPT '' @ chu_cuo @ '': timeout]'']
   \<and> deepseek_messages (debate_end demo_args ''A'' ''B'' 1 [Inl ''timeout'', Inl ''HTTP 503''])
     = [''B'', ''[DeepSeek '' @ chu_cuo @ '': HTTP 503]'']
   \<and> conversation_md (debate_end demo_args ''A'' ''B'' 1 [Inl ''timeout'', Inl ''HTTP 503''])
     = [''**G'' @ lao_shi @ '':** A'', ''**Deep'' @ lao_shi @ '':** B'',
        ''**GPT:** [GPT '' @ chu_cuo @ '': timeout]'',
        ''**DeepSeek:** [DeepSeek '' @ chu_cuo @ '': HTTP 503]'']"
proof -
  let ?s0 = "debate_start ''A'' ''B'' [Inl ''timeout'', Inl ''HTTP 503''] :: (string + string) list debate"
  have fails: "openai demo_args (gpt_api_key demo_args) (gpt_model demo_args)
       (gpt_history_of (gpt_system demo_args) (gpt_messages ?s0) (deepseek_messages ?s0)) (world ?s0)
     = (Inl ''timeout'', [Inl ''HTTP 503''])"
    by (simp add: demo_args_def scripted_def debate_start_def)
  have turn: "gpt_turn demo_args ?s0
     = (''[GPT '' @ chu_cuo @ '': '' @ ''timeout'' @ '']'',
        ?s0\<lparr>gpt_messages := gpt_messages ?s0 @ [''[GPT '' @ chu_cuo @ '': '' @ ''timeout'' @ '']''],
            conversation_md :=
              conversation_md ?s0 @ [''**GPT:** '' @ ''[GPT '' @ chu_cuo @ '': '' @ ''timeout'' @ '']''],
            requests :=
              requests ?s0
                @ [(GPT, gpt_history_of (gpt_system demo_args) (gpt_messages ?s0) (deepseek_messages ?s0))],
            world := [Inl ''HTTP 503'']\<rparr>)"
    using failed_call_kept_as_reply[of demo_args ?s0 "''timeout''" "[Inl ''HTTP 503'']"] fails
    by blast
  have rest: "debate_end demo_args ''A'' ''B'' 1 [Inl ''timeout'', Inl ''HTTP 503'']
     = deepseek_turn demo_args (fst (gpt_turn demo_args ?s0)) (snd (gpt_turn demo_args ?s0))"
    by (simp add: debate_end_def debate_round_def split: prod.splits)
  show ?thesis
    unfolding rest turn using fails
    by (simp add: deepseek_turn_def Let_def demo_args_def scripted_def call_deepseek_def
        debate_start_def)
qed

text \<open>
  Claim C6. At every point of the execution of \<open>start_debate\<close> from the opening
  statements on (the state on entry to the loop and the state after each append to a
  history, the last of which is the state on exit), the two histories differ in length
  by at most one, and GPT's is never the shorter.
\<close>

theorem histories_in_lockstep:
  "(\<forall>s \<in> set (debate_trace c g0 d0 N w).
       length (deepseek_messages s) \<le> length (gpt_messages s)
     \<and> length (gpt_messages s) \<le> length (deepseek_messages s) + 1)
   \<and> hd (debate_trace c g0 d0 N w) = debate_start g0 d0 w
   \<and> last (debate_trace c g0 d0 N w) = debate_end c g0 d0 N w
   \<and> length (debate_trace c g0 d0 N w) = 1 + 2 * nat N"
proof -
  have "length (gpt_messages (debate_start g0 d0 w)) = length (deepseek_messages (debate_start g0 d0 w))"
    by (simp add: debate_start_def)
  from trace_rounds_lockstep[OF this, of c "nat N"]
  have "\<forall>s \<in> set (debate_trace c g0 d0 N w). lockstep s"
    by (simp add: debate_trace_def Let_def lockstep_def debate_start_def)
  then show ?thesis
    by (simp add: lockstep_def debate_trace_def Let_def trace_rounds_last debate_end_def
        trace_rounds_length del: last.simps)
qed

text \<open>
  Two rounds, the first call to DeepSeek failing: the lengths of the two histories at
  the five points.
\<close>

theorem histories_in_lockstep_witness:
  "map (\<lambda>s. (length (gpt_messages s), length (deepseek_messages s)))
       (debate_trace demo_args ''A'' ''B'' 2 [Inr ''x1'', Inl ''timeout'', Inr ''x2'', Inr ''y2''])
     = [(1, 1), (2, 1), (2, 2), (3, 2), (3, 3)]
   \<and> list_all lockstep
       (debate_trace demo_args ''A'' ''B'' 2 [Inr ''x1'', Inl ''timeout'', Inr ''x2'', Inr ''y2''])"
proof -
  have "map (\<lambda>s. (length (gpt_messages s), length (deepseek_messages s)))
       (debate_trace demo_args ''A'' ''B'' 2 [Inr ''x1'', Inl ''timeout'', Inr ''x2'', Inr ''y2''])
     = [(1, 1), (2, 1), (2, 2), (3, 2), (3, 3)]"
    by (simp add: debate_trace_def debate_start_def gpt_turn_def deepseek_turn_def Let_def
        demo_args_def scripted_def call_gpt_def call_deepseek_def numeral_2_eq_2)
  moreover have "list_all lockstep
       (debate_trace demo_args ''A'' ''B'' 2 [Inr ''x1'', Inl ''timeout'', Inr ''x2'', Inr ''y2''])"
    using histories_in_lockstep[of demo_args "''A''" "''B''" 2
        "[Inr ''x1'', Inl ''timeout'', Inr ''x2'', Inr ''y2'']"]
    by (simp add: list_all_iff lockstep_def)
  ultimately show ?thesis by simp
qed

section \<open>Properties of the voice chat assistant\<close>

text \<open>
  Claim C7. Whatever the state of the assistant, when the language selected in the
  window differs from the current one and is an entry of \<open>LANGUAGES\<close>,
  \<open>change_language\<close> raises nothing and leaves as chat context exactly one message, of
  role \<open>system\<close>, whose content is the system prompt of the selected language; every
  earlier message is gone, and the selected language is the current one.
\<close>

theorem change_language_resets_context:
  assumes "gui self = Some u"
    and "language_var u \<noteq> current_language self"
    and "LANGUAGES (language_var u) = Some l"
  shows "fst (change_language self) = None
       \<and> chat_context (snd (change_language self))
           = [\<lparr>role = ''system'', content = system_prompt l\<rparr>]
       \<and> current_language (snd (change_language self)) = language_var u"
  using assms by (simp add: change_language_def Let_def)

text \<open>
  An assistant one exchange into an English conversation, with \<open>Deutsch\<close> selected:
  three messages before, the German prompt alone after.
\<close>

theorem change_language_resets_context_witness:
  "gui (select_language ''Deutsch'' chatting)
     = Some \<lparr>model_var = ''Llama 3.1'', language_var = ''Deutsch'', status_var = ''Ready''\<rparr>
   \<and> ''Deutsch'' \<noteq> current_language (select_language ''Deutsch'' chatting)
   \<and> length (chat_context (select_language ''Deutsch'' chatting)) = 3
   \<and> LANGUAGES ''Deutsch''
     = Some \<lparr>code = ''de'',
             system_prompt =
               ''Du bist ein freundlicher Deutschlehrer. Antworte kurz und pr'' @ [CHR 0xC3, CHR 0xA4]
                 @ ''gnant in maximal 100 W'' @ [CHR 0xC3, CHR 0xB6] @ ''rtern auf Deutsch.''\<rparr>
   \<and> chat_context (snd (change_language (select_language ''Deutsch'' chatting)))
     = [\<lparr>role = ''system'',
         content =
           ''Du bist ein freundlicher Deutschlehrer. Antworte kurz und pr'' @ [CHR 0xC3, CHR 0xA4]
             @ ''gnant in maximal 100 W'' @ [CHR 0xC3, CHR 0xB6] @ ''rtern auf Deutsch.''\<rparr>]
   \<and> current_language (snd (change_language (select_language ''Deutsch'' chatting))) = ''Deutsch''"
proof -
  have g: "gui (select_language ''Deutsch'' chatting)
     = Some \<lparr>model_var = ''Llama 3.1'', language_var = ''Deutsch'', status_var = ''Ready''\<rparr>"
    by (simp add: select_language_def chatting_def new_chatbot_def)
  have n: "language_var \<lparr>model_var = ''Llama 3.1'', language_var = ''Deutsch'', status_var = ''Ready''\<rparr>
      \<noteq> current_language (select_language ''Deutsch'' chatting)"
    by (simp add: select_language_def chatting_def new_chatbot_def)
  have l: "LANGUAGES (language_var \<lparr>model_var = ''Llama 3.1'', language_var = ''Deutsch'', status_var = ''Ready''\<rparr>)
     = Some \<lparr>code = ''de'',
             system_prompt =
               ''Du bist ein freundlicher Deutschlehrer. Antworte kurz und pr'' @ [CHR 0xC3, CHR 0xA4]
                 @ ''gnant in maximal 100 W'' @ [CHR 0xC3, CHR 0xB6] @ ''rtern auf Deutsch.''\<rparr>"
    by (simp add: LANGUAGES_def)
  have c: "length (chat_context (select_language ''Deutsch'' chatting)) = 3"
    by (simp add: select_language_def chatting_def new_chatbot_def)
  from change_language_resets_context[OF g n l] g n l c show ?thesis by simp
qed

text \<open>
  Claim C10. When the language selected in the window is the current language,
  \<open>change_language\<close> changes nothing at all: the chat context with its user and
  assistant messages, the current language and every other attribute are as before, and
  nothing is raised.
\<close>

theorem change_language_same_language:
  assumes "gui self = Some u" and "language_var u = current_language self"
  shows "change_language self = (None, self)"
  using assms by (simp add: change_language_def Let_def)

text \<open>The same assistant with \<open>English\<close> still selected.\<close>

theorem change_language_same_language_witness:
  "gui chatting = Some \<lparr>model_var = ''Llama 3.1'', language_var = ''English'', status_var = ''Ready''\<rparr>
   \<and> current_language chatting = ''English''
   \<and> length (chat_context chatting) = 3
   \<and> change_language chatting = (None, chatting)"
proof -
  have g: "gui chatting = Some \<lparr>model_var = ''Llama 3.1'', language_var = ''English'', status_var = ''Ready''\<rparr>"
    by (simp add: chatting_def new_chatbot_def)
  have n: "language_var \<lparr>model_var = ''Llama 3.1'', language_var = ''English'', status_var = ''Ready''\<rparr>
      = current_language chatting"
    by (simp add: chatting_def new_chatbot_def)
  have c: "length (chat_context chatting) = 3"
    by (simp add: chatting_def new_chatbot_def)
  from change_language_same_language[OF g n] g n c show ?thesis by simp
qed

text \<open>
  Claim C8. While \<open>processing_enabled\<close> is false, a call of the capture callback
  leaves the audio queue as it was, whatever the block delivered and whether or not the
  call raises: nothing is queued.
\<close>

theorem callback_discards_while_disabled:
  assumes "\<not> processing_enabled self"
  shows "audio_queue (snd (recording_callback self indata frames time status)) = audio_queue self"
  using assms by (simp add: recording_callback_def Let_def split: option.splits)

text \<open>
  A block of two samples: not queued while processing is disabled, queued with its
  volume once it is enabled.
\<close>

theorem callback_discards_while_disabled_witness:
  "\<not> processing_enabled (chatting\<lparr>is_recording := True, processing_enabled := False\<rparr>)
   \<and> audio_queue (snd (recording_callback (chatting\<lparr>is_recording := True, processing_enabled := False\<rparr>)
                         [0.25, -0.5] 2 0 None)) = []
   \<and> audio_queue (snd (recording_callback (chatting\<lparr>is_recording := True\<rparr>) [0.25, -0.5] 2 0 None))
     = [([0.25, -0.5], 0.5)]"
proof -
  have d: "\<not> processing_enabled (chatting\<lparr>is_recording := True, processing_enabled := False\<rparr>)"
    by simp
  have q: "audio_queue (chatting\<lparr>is_recording := True, processing_enabled := False\<rparr>) = []"
    by (simp add: chatting_def new_chatbot_def)
  have e: "audio_queue (snd (recording_callback (chatting\<lparr>is_recording := True\<rparr>) [0.25, -0.5] 2 0 None))
     = [([0.25, -0.5], 0.5)]"
    by (simp add: recording_callback_def chatting_def new_chatbot_def Let_def)
  from callback_discards_while_disabled[OF d, of "[0.25, -0.5]" 2 0 None] q e d show ?thesis by simp
qed

section \<open>Properties of the segmenter\<close>

subsection \<open>The rounding\<close>







lemma run_time_Nil: "run_time rnd t [] = t"
  by (simp add: run_time_def)

lemma run_time_Cons:
  "run_time rnd t (fr # frs) = run_time rnd (rnd (t + chunk_duration rnd fr)) frs"
  by (simp add: run_time_def)



subsection \<open>The loop\<close>

lemma process_audio_Nil: "process_audio rnd s [] = s"
  by (simp add: process_audio_def)

lemma process_audio_Cons:
  "process_audio rnd s (fr # frs) = process_audio rnd (process_chunk rnd s fr) frs"
  by (simp add: process_audio_def)



text \<open>A silent frame while no speech has started.\<close>

lemma idle_silent_step:
  assumes "\<not> voiced rnd fr" and "\<not> speech_started s"
  shows "process_chunk rnd s fr
         = s\<lparr>accumulated_time := rnd (accumulated_time s + chunk_duration rnd fr),
             accumulated_audio := accumulated_audio s @ [fst fr]\<rparr>"
  using assms by (simp add: process_chunk_def Let_def)

lemma idle_silent_run:
  "\<forall>f \<in> set frs. \<not> voiced rnd f \<Longrightarrow> \<not> speech_started s \<Longrightarrow>
   handed_off (process_audio rnd s frs) = handed_off s
   \<and> \<not> speech_started (process_audio rnd s frs)
   \<and> accumulated_audio (process_audio rnd s frs) = accumulated_audio s @ map fst frs
   \<and> speech_duration (process_audio rnd s frs) = speech_duration s
   \<and> silence_duration (process_audio rnd s frs) = silence_duration s
   \<and> accumulated_time (process_audio rnd s frs) = run_time rnd (accumulated_time s) frs"
proof (induction frs arbitrary: s)
  case Nil
  then show ?case by (simp add: process_audio_Nil run_time_Nil)
next
  case (Cons fr frs)
  have quiet: "\<not> voiced rnd fr" and rest: "\<forall>f \<in> set frs. \<not> voiced rnd f"
    using Cons.prems(1) by simp_all
  have step: "process_chunk rnd s fr
         = s\<lparr>accumulated_time := rnd (accumulated_time s + chunk_duration rnd fr),
             accumulated_audio := accumulated_audio s @ [fst fr]\<rparr>"
    using idle_silent_step[OF quiet Cons.prems(2)] .
  have idle: "\<not> speech_started (process_chunk rnd s fr)"
    using Cons.prems(2) by (simp add: step)
  show ?case
    using Cons.IH[OF rest idle]
    by (simp add: process_audio_Cons run_time_Cons) (simp add: step)
qed

lemma worker_start_fields:
  "handed_off (worker_start self) = []"
  "accumulated_audio (worker_start self) = []"
  "accumulated_time (worker_start self) = 0"
  "speech_duration (worker_start self) = 0"
  "silence_duration (worker_start self) = 0"
  "\<not> speech_started (worker_start self)"
  by (simp_all add: worker_start_def chatbot.defs worker.defs)

text \<open>
  Claim C4. When no frame of a sequence has a volume above the silence threshold, no
  prefix of the sequence, of whatever length, ends with a hand-off behind it: after any
  number of the frames nothing has been handed to \<open>process_accumulated_audio\<close>, speech
  has not started, and the buffer holds every frame taken so far.
\<close>

theorem silence_never_flushes:
  assumes "\<forall>f \<in> set frames. \<not> voiced rnd f"
  shows "handed_off (process_audio rnd (worker_start self) (take n frames)) = []
       \<and> \<not> speech_started (process_audio rnd (worker_start self) (take n frames))
       \<and> accumulated_audio (process_audio rnd (worker_start self) (take n frames))
           = map fst (take n frames)"
proof -
  have "\<forall>f \<in> set (take n frames). \<not> voiced rnd f"
    using assms by (meson in_set_takeD)
  then show ?thesis
    using idle_silent_run[of "take n frames" rnd "worker_start self"]
    by (simp add: worker_start_fields)
qed

text \<open>
  Three frames of half a second each, the loudest of volume \<open>0.015\<close>, which is the
  threshold and not above it.
\<close>

theorem silence_never_flushes_witness:
  "\<not> voiced (\<lambda>x. x) (tone 8000 0) \<and> \<not> voiced (\<lambda>x. x) (tone 8000 0.015)
   \<and> \<not> voiced (\<lambda>x. x) (tone 8000 (- 0.01))
   \<and> handed_off (process_audio (\<lambda>x. x) (worker_start (new_chatbot False ''llama3.1''))
        [tone 8000 0, tone 8000 0.015, tone 8000 (- 0.01)]) = []
   \<and> accumulated_audio (process_audio (\<lambda>x. x) (worker_start (new_chatbot False ''llama3.1''))
        [tone 8000 0, tone 8000 0.015, tone 8000 (- 0.01)])
     = [replicate 8000 0, replicate 8000 0.015, replicate 8000 (- 0.01)]"
proof -
  have quiet: "\<forall>f \<in> set [tone 8000 0, tone 8000 0.015, tone 8000 (- 0.01)]. \<not> voiced (\<lambda>x. x) f"
    by (simp add: voiced_def tone_def SILENCE_THRESHOLD_def)
  show ?thesis
    using silence_never_flushes[OF quiet, of "new_chatbot False ''llama3.1''" 3] quiet
    by (simp add: tone_def)
qed

subsection \<open>An utterance and the pause that ends it\<close>










subsection \<open>Binary floating point\<close>

























subsection \<open>Blocks of a tenth of a second\<close>


















end
